theory Spec2Isabelle
  imports Main
begin

section \<open>Data model\<close>

text \<open>
  The serializers of \<^verbatim>\<open>listings/serializers.py\<close> read and write three tables through the
  object-relational mapper. A calendar date is its proleptic Gregorian ordinal (what
  \<^verbatim>\<open>date.toordinal()\<close> returns): comparison of dates is comparison of ordinals and
  \<^verbatim>\<open>(check_out - check_in).days\<close> is their difference. A date object is always truthy in
  Python, so \<^verbatim>\<open>if check_in and check_out\<close> tests presence only.
\<close>

type_synonym date = int

text \<open>
  A row of the Listing table, with the two columns the booking serializer reads. The
  price is an exact decimal; it is counted here in whole steps of its last decimal place,
  so that its product with a whole number of nights is the exact product. The primary
  key is the key of the table (see \<open>database\<close>).
\<close>

record listing =
  price_per_night :: int
  max_guests :: int

text \<open>A row of the Booking table; \<open>pk\<close> is the column \<^verbatim>\<open>id\<close>.\<close>

record booking =
  pk :: int
  listing_id :: int
  user_id :: int
  check_in_date :: date
  check_out_date :: date
  guests :: int
  total_price :: int
  status :: string
  special_requests :: string

text \<open>
  The dictionary \<^verbatim>\<open>data\<close> that \<^verbatim>\<open>validate\<close>, \<^verbatim>\<open>create\<close> and \<^verbatim>\<open>update\<close> receive: one
  optional entry per writable field of \<^verbatim>\<open>BookingSerializer.Meta.fields\<close>. Each selector
  mirrors \<^verbatim>\<open>data.get('...')\<close>, with \<open>None\<close> for an absent key. The fields of
  \<^verbatim>\<open>read_only_fields\<close> (\<^verbatim>\<open>id\<close>, \<^verbatim>\<open>total_price\<close>, the timestamps) and the read-only
  nested fields never reach the dictionary, so it has no entry for them.
\<close>

record booking_data =
  get_listing_id :: "int option"
  get_user_id :: "int option"
  get_check_in_date :: "date option"
  get_check_out_date :: "date option"
  get_guests :: "int option"
  get_status :: "string option"
  get_special_requests :: "string option"

text \<open>
  The stored state: listings by primary key (\<^verbatim>\<open>Listing.objects.get(id=...)\<close> is a lookup),
  bookings as the list of rows that \<^verbatim>\<open>Booking.objects.filter\<close> scans.
\<close>

record database =
  listings :: "int \<rightharpoonup> listing"
  bookings :: "booking list"

text \<open>
  Every way an operation can fail. The first six are \<^verbatim>\<open>serializers.ValidationError\<close> with
  the message of the source; the last two are the exceptions \<^verbatim>\<open>create\<close> lets escape.
\<close>

datatype error =
    RatingOutOfRange           \<comment> \<open>Rating must be between 1 and 5.\<close>
  | CheckOutNotAfterCheckIn    \<comment> \<open>Check-out date must be after check-in date.\<close>
  | CheckInInPast              \<comment> \<open>Check-in date cannot be in the past.\<close>
  | GuestsExceedCapacity int int
      \<comment> \<open>Number of guests (g) exceeds maximum capacity (m).\<close>
  | InvalidListingID           \<comment> \<open>Invalid listing ID.\<close>
  | ListingNotAvailable        \<comment> \<open>Listing is not available for the selected dates.\<close>
  | DoesNotExist               \<comment> \<open>Listing.DoesNotExist, uncaught\<close>
  | KeyError string            \<comment> \<open>a missing key of validated_data\<close>

section \<open>ReviewSerializer\<close>

definition validate_rating :: "int \<Rightarrow> error + int" where
  "validate_rating v = (if \<not> (1 \<le> v \<and> v \<le> 5) then Inl RatingOutOfRange else Inr v)"

section \<open>BookingSerializer.validate\<close>

text \<open>
  The three blocks of \<^verbatim>\<open>validate\<close>, in the order of the source. Each gives the error it
  raises, or \<open>None\<close> when control falls through to the next block.
\<close>

text \<open>Lines 117 to 126: both dates present, then order, then the clock.\<close>

fun validate_dates :: "date \<Rightarrow> date option \<Rightarrow> date option \<Rightarrow> error option" where
  "validate_dates today (Some check_in) (Some check_out) =
     (if check_out \<le> check_in then Some CheckOutNotAfterCheckIn
      else if check_in < today then Some CheckInInPast
      else None)"
| "validate_dates today _ _ = None"

text \<open>
  Lines 129 to 137: \<^verbatim>\<open>if listing_id and guests\<close> is a truthiness test, so an absent entry
  and the integer 0 both skip the block. The lookup failing is turned into a validation
  error by the \<^verbatim>\<open>except\<close> clause.
\<close>

fun validate_guests :: "database \<Rightarrow> int option \<Rightarrow> int option \<Rightarrow> error option" where
  "validate_guests db (Some lid) (Some g) =
     (if lid \<noteq> 0 \<and> g \<noteq> 0 then
        (case listings db lid of
           None \<Rightarrow> Some InvalidListingID
         | Some l \<Rightarrow>
             if g > max_guests l then Some (GuestsExceedCapacity g (max_guests l))
             else None)
      else None)"
| "validate_guests db _ _ = None"

text \<open>
  Lines 141 to 150: the query set, with the row being updated excluded when
  \<^verbatim>\<open>self.instance\<close> is set.
\<close>

definition conflicting_bookings ::
  "database \<Rightarrow> booking option \<Rightarrow> int \<Rightarrow> date \<Rightarrow> date \<Rightarrow> booking list" where
  "conflicting_bookings db inst lid check_in check_out =
     (let q = filter (\<lambda>b. listing_id b = lid
                          \<and> status b \<in> {''confirmed'', ''pending''}
                          \<and> check_in_date b < check_out
                          \<and> check_out_date b > check_in) (bookings db)
      in case inst of
           None \<Rightarrow> q
         | Some i \<Rightarrow> filter (\<lambda>b. pk b \<noteq> pk i) q)"

text \<open>Lines 140 to 155: the guard (a listing id of 0 is falsy), then \<^verbatim>\<open>exists()\<close>.\<close>

fun validate_conflicts ::
  "database \<Rightarrow> booking option \<Rightarrow> date option \<Rightarrow> date option \<Rightarrow> int option \<Rightarrow> error option" where
  "validate_conflicts db inst (Some check_in) (Some check_out) (Some lid) =
     (if lid \<noteq> 0 \<and> conflicting_bookings db inst lid check_in check_out \<noteq> []
      then Some ListingNotAvailable else None)"
| "validate_conflicts db inst _ _ _ = None"

text \<open>
  \<^verbatim>\<open>validate(self, data)\<close>: \<open>today\<close> is \<^verbatim>\<open>timezone.now().date()\<close>, \<open>inst\<close> is
  \<^verbatim>\<open>self.instance\<close>. It reads the database and returns \<open>data\<close> unchanged.
\<close>

definition validate ::
  "date \<Rightarrow> database \<Rightarrow> booking option \<Rightarrow> booking_data \<Rightarrow> error + booking_data" where
  "validate today db inst data =
     (let check_in = get_check_in_date data;
          check_out = get_check_out_date data;
          guests' = get_guests data;
          lid = get_listing_id data
      in case validate_dates today check_in check_out of
           Some e \<Rightarrow> Inl e
         | None \<Rightarrow>
             (case validate_guests db lid guests' of
                Some e \<Rightarrow> Inl e
              | None \<Rightarrow>
                  (case validate_conflicts db inst check_in check_out lid of
                     Some e \<Rightarrow> Inl e
                   | None \<Rightarrow> Inr data)))"

section \<open>BookingSerializer.create and the inherited update\<close>

text \<open>
  What \<^verbatim>\<open>setattr(instance, attr, value)\<close> for every entry of the dictionary leaves: the
  row with each present entry written over it, every other column kept.
\<close>

definition apply_data :: "booking \<Rightarrow> booking_data \<Rightarrow> booking" where
  "apply_data b data =
     b\<lparr> listing_id := (case get_listing_id data of None \<Rightarrow> listing_id b | Some v \<Rightarrow> v),
        user_id := (case get_user_id data of None \<Rightarrow> user_id b | Some v \<Rightarrow> v),
        check_in_date := (case get_check_in_date data of None \<Rightarrow> check_in_date b | Some v \<Rightarrow> v),
        check_out_date := (case get_check_out_date data of None \<Rightarrow> check_out_date b | Some v \<Rightarrow> v),
        guests := (case get_guests data of None \<Rightarrow> guests b | Some v \<Rightarrow> v),
        status := (case get_status data of None \<Rightarrow> status b | Some v \<Rightarrow> v),
        special_requests :=
          (case get_special_requests data of None \<Rightarrow> special_requests b | Some v \<Rightarrow> v) \<rparr>"

text \<open>The key the table gives a new row: one more than the largest in use.\<close>

definition fresh_pk :: "booking list \<Rightarrow> int" where
  "fresh_pk bs = 1 + foldr max (map pk bs) 0"

text \<open>
  \<^verbatim>\<open>super().create(validated_data)\<close>, that is \<^verbatim>\<open>Booking.objects.create(**validated_data)\<close>:
  a new row under a fresh key, appended to the table. The entry \<^verbatim>\<open>total_price\<close> that
  \<^verbatim>\<open>create\<close> has just stored in the dictionary is the argument \<open>price\<close>. The column
  defaults declared by the Booking model (for a key the dictionary lacks) are the row
  \<open>dflt\<close>.
\<close>

definition Booking_objects_create ::
  "booking \<Rightarrow> database \<Rightarrow> booking_data \<Rightarrow> int \<Rightarrow> (error + booking) \<times> database" where
  "Booking_objects_create dflt db validated_data price =
     (let b = (apply_data dflt validated_data)
                \<lparr> pk := fresh_pk (bookings db), total_price := price \<rparr>
      in (Inr b, db\<lparr> bookings := bookings db @ [b] \<rparr>))"

text \<open>
  \<^verbatim>\<open>create(self, validated_data)\<close>, lines 159 to 168. Subscripting the dictionary raises
  \<^verbatim>\<open>KeyError\<close> on an absent key and the listing lookup raises \<^verbatim>\<open>Listing.DoesNotExist\<close>;
  neither is caught, and both happen before anything is written.
\<close>

definition create ::
  "booking \<Rightarrow> database \<Rightarrow> booking_data \<Rightarrow> (error + booking) \<times> database" where
  "create dflt db validated_data =
     (case get_listing_id validated_data of
        None \<Rightarrow> (Inl (KeyError ''listing_id''), db)
      | Some lid \<Rightarrow>
     (case listings db lid of
        None \<Rightarrow> (Inl DoesNotExist, db)
      | Some l \<Rightarrow>
     (case get_check_in_date validated_data of
        None \<Rightarrow> (Inl (KeyError ''check_in_date''), db)
      | Some check_in \<Rightarrow>
     (case get_check_out_date validated_data of
        None \<Rightarrow> (Inl (KeyError ''check_out_date''), db)
      | Some check_out \<Rightarrow>
          (let nights = check_out - check_in
           in Booking_objects_create dflt db validated_data (price_per_night l * nights))))))"

text \<open>
  \<^verbatim>\<open>instance.save()\<close>: the row with the instance's key is overwritten; when the table has
  no such row, the instance is inserted.
\<close>

definition save_row :: "booking list \<Rightarrow> booking \<Rightarrow> booking list" where
  "save_row bs b =
     (if \<exists>r \<in> set bs. pk r = pk b
      then map (\<lambda>r. if pk r = pk b then b else r) bs
      else bs @ [b])"

text \<open>
  \<^verbatim>\<open>BookingSerializer\<close> does not override \<^verbatim>\<open>update\<close>, so the one of
  \<^verbatim>\<open>ModelSerializer\<close> runs: it sets every entry of the dictionary on the instance and
  saves it.
\<close>

definition update ::
  "database \<Rightarrow> booking \<Rightarrow> booking_data \<Rightarrow> (error + booking) \<times> database" where
  "update db inst validated_data =
     (let b = apply_data inst validated_data
      in (Inr b, db\<lparr> bookings := save_row (bookings db) b \<rparr>))"

text \<open>
  One write through the serializer, as a view drives it: \<^verbatim>\<open>is_valid()\<close> runs
  \<^verbatim>\<open>validate\<close>, and only then \<^verbatim>\<open>save()\<close> calls \<^verbatim>\<open>create\<close> (no instance) or
  \<^verbatim>\<open>update\<close> (an instance). The result is what the caller gets, paired with the
  stored state afterwards.
\<close>

definition save ::
  "date \<Rightarrow> booking \<Rightarrow> database \<Rightarrow> booking option \<Rightarrow> booking_data
     \<Rightarrow> (error + booking) \<times> database" where
  "save today dflt db inst data =
     (case validate today db inst data of
        Inl e \<Rightarrow> (Inl e, db)
      | Inr validated_data \<Rightarrow>
          (case inst of
             None \<Rightarrow> create dflt db validated_data
           | Some i \<Rightarrow> update db i validated_data))"

text \<open>
  A successful write, of data that satisfies \<open>P\<close>: a creation, or an update of a row
  of the table. The clock and the column defaults are free at every step.
\<close>

inductive step :: "(booking_data \<Rightarrow> bool) \<Rightarrow> database \<Rightarrow> database \<Rightarrow> bool"
  for P :: "booking_data \<Rightarrow> bool" where
  created: "P data \<Longrightarrow> save today dflt db None data = (Inr b, db') \<Longrightarrow> step P db db'"
| updated: "P data \<Longrightarrow> inst \<in> set (bookings db) \<Longrightarrow>
            save today dflt db (Some inst) data = (Inr b, db') \<Longrightarrow> step P db db'"

section \<open>Client payloads and read-only fields\<close>





section \<open>BookingBasicSerializer\<close>




section \<open>The properties, in the words of the specification\<close>

text \<open>A booking holds its dates while its status is pending or confirmed.\<close>

definition active :: "booking \<Rightarrow> bool" where
  "active b = (status b = ''pending'' \<or> status b = ''confirmed'')"

text \<open>
  The conflict of section 4.2 (d): an existing active booking of the same listing, other
  than the one being updated, with existing.checkin < new.checkout and
  existing.checkout > new.checkin.
\<close>

definition has_conflict :: "database \<Rightarrow> booking option \<Rightarrow> int \<Rightarrow> date \<Rightarrow> date \<Rightarrow> bool" where
  "has_conflict db inst lid check_in check_out =
     (\<exists>e \<in> set (bookings db).
        listing_id e = lid \<and> active e
        \<and> (case inst of None \<Rightarrow> True | Some i \<Rightarrow> pk e \<noteq> pk i)
        \<and> check_in_date e < check_out \<and> check_out_date e > check_in)"

text \<open>The nights a booking occupies: the half-open range from check-in to check-out.\<close>

definition stay :: "booking \<Rightarrow> date set" where
  "stay b = {check_in_date b ..< check_out_date b}"

text \<open>No two distinct active bookings of one listing share a night.\<close>

definition no_double_booking :: "booking list \<Rightarrow> bool" where
  "no_double_booking bs =
     (\<forall>a \<in> set bs. \<forall>b \<in> set bs.
        a \<noteq> b \<and> listing_id a = listing_id b \<and> active a \<and> active b
          \<longrightarrow> stay a \<inter> stay b = {})"

text \<open>
  Data that carries both dates and a listing id other than 0: what the conflict query
  of \<^verbatim>\<open>validate\<close> needs in order to run.
\<close>

definition complete :: "booking_data \<Rightarrow> bool" where
  "complete data =
     (get_check_in_date data \<noteq> None \<and> get_check_out_date data \<noteq> None
      \<and> (case get_listing_id data of None \<Rightarrow> False | Some lid \<Rightarrow> lid \<noteq> 0))"

section \<open>Example data\<close>

text \<open>
  The data of the examples below: the days of January 2025 by their ordinal (January 1 is
  day 739252), a listing at 100 a night for at most four guests stored under key 1, a
  request with every required field, an empty partial request, and the column defaults
  of a new booking.
\<close>

definition jan :: "int \<Rightarrow> date" where
  "jan d = 739251 + d"

definition ex_listing :: listing where
  "ex_listing = \<lparr> price_per_night = 100, max_guests = 4 \<rparr>"

definition ex_request :: "int \<Rightarrow> date \<Rightarrow> date \<Rightarrow> int \<Rightarrow> booking_data" where
  "ex_request lid check_in check_out g =
     \<lparr> get_listing_id = Some lid, get_user_id = Some 1,
       get_check_in_date = Some check_in, get_check_out_date = Some check_out,
       get_guests = Some g, get_status = None, get_special_requests = None \<rparr>"

definition ex_patch :: booking_data where
  "ex_patch =
     \<lparr> get_listing_id = None, get_user_id = None, get_check_in_date = None,
       get_check_out_date = None, get_guests = None, get_status = None,
       get_special_requests = None \<rparr>"

definition ex_defaults :: booking where
  "ex_defaults =
     \<lparr> pk = 0, listing_id = 0, user_id = 0, check_in_date = 0, check_out_date = 0,
       guests = 1, total_price = 0, status = ''pending'', special_requests = [] \<rparr>"

text \<open>A pending booking of two guests by user 1, as \<open>ex_request\<close> creates it.\<close>

definition ex_booking :: "int \<Rightarrow> int \<Rightarrow> date \<Rightarrow> date \<Rightarrow> int \<Rightarrow> booking" where
  "ex_booking k lid check_in check_out price =
     \<lparr> pk = k, listing_id = lid, user_id = 1, check_in_date = check_in,
       check_out_date = check_out, guests = 2, total_price = price,
       status = ''pending'', special_requests = [] \<rparr>"

text \<open>A database whose only listing is \<open>ex_listing\<close>, under the key \<open>lid\<close>.\<close>

definition ex_db :: "int \<Rightarrow> booking list \<Rightarrow> database" where
  "ex_db lid bs = \<lparr> listings = [lid \<mapsto> ex_listing], bookings = bs \<rparr>"



section \<open>Auxiliary facts\<close>

lemmas ex_defs = jan_def ex_listing_def ex_request_def ex_patch_def ex_defaults_def
  ex_booking_def ex_db_def

lemmas run_defs = validate_def conflicting_bookings_def Let_def save_def create_def
  update_def Booking_objects_create_def apply_data_def fresh_pk_def save_row_def

lemma validate_Inr_iff:
  "validate today db inst data = Inr d \<longleftrightarrow>
     d = data
     \<and> validate_dates today (get_check_in_date data) (get_check_out_date data) = None
     \<and> validate_guests db (get_listing_id data) (get_guests data) = None
     \<and> validate_conflicts db inst (get_check_in_date data) (get_check_out_date data)
           (get_listing_id data) = None"
  by (auto simp: validate_def Let_def split: option.splits)

lemma validate_Inl_iff:
  "validate today db inst data = Inl e \<longleftrightarrow>
     validate_dates today (get_check_in_date data) (get_check_out_date data) = Some e
     \<or> validate_dates today (get_check_in_date data) (get_check_out_date data) = None
       \<and> (validate_guests db (get_listing_id data) (get_guests data) = Some e
          \<or> validate_guests db (get_listing_id data) (get_guests data) = None
            \<and> validate_conflicts db inst (get_check_in_date data) (get_check_out_date data)
           (get_listing_id data) = Some e)"
  by (auto simp: validate_def Let_def split: option.splits)

lemma conflicting_bookings_empty_iff:
  "conflicting_bookings db inst lid ci co = [] \<longleftrightarrow> \<not> has_conflict db inst lid ci co"
  by (auto simp: conflicting_bookings_def has_conflict_def active_def filter_empty_conv Let_def
           split: option.splits)

lemma fresh_pk_gt: "b \<in> set bs \<Longrightarrow> pk b < fresh_pk bs"
  by (induction bs) (auto simp: fresh_pk_def)

lemma stay_meet:
  "stay a \<inter> stay b \<noteq> {} \<Longrightarrow>
     check_in_date a < check_out_date b \<and> check_in_date b < check_out_date a"
  by (auto simp: stay_def)

lemma save_created:
  assumes "save today dflt db None data = (Inr b, db')"
  obtains lid l ci co where
    "validate today db None data = Inr data"
    "get_listing_id data = Some lid" "listings db lid = Some l"
    "get_check_in_date data = Some ci" "get_check_out_date data = Some co"
    "b = (apply_data dflt data)
           \<lparr> pk := fresh_pk (bookings db), total_price := price_per_night l * (co - ci) \<rparr>"
    "db' = db\<lparr> bookings := bookings db @ [b] \<rparr>"
  using assms
  by (auto simp: save_def create_def Booking_objects_create_def Let_def validate_Inr_iff
           split: sum.splits option.splits)

lemma save_updated:
  assumes "save today dflt db (Some i) data = (Inr b, db')"
  shows "validate today db (Some i) data = Inr data \<and> b = apply_data i data
         \<and> db' = db\<lparr> bookings := save_row (bookings db) b \<rparr>"
  using assms
  by (auto simp: save_def update_def Let_def validate_Inr_iff split: sum.splits)

lemma complete_validated:
  assumes "complete data" "validate today db inst data = Inr data"
  shows "\<exists>lid ci co. get_listing_id data = Some lid \<and> get_check_in_date data = Some ci
           \<and> get_check_out_date data = Some co \<and> ci < co \<and> today \<le> ci
           \<and> \<not> has_conflict db inst lid ci co"
  using assms
  by (auto simp: complete_def validate_Inr_iff conflicting_bookings_empty_iff
           split: option.splits if_splits)

lemma apply_data_pk [simp]: "pk (apply_data b data) = pk b"
  by (simp add: apply_data_def)

lemma apply_data_total_price [simp]: "total_price (apply_data b data) = total_price b"
  by (simp add: apply_data_def)

lemma apply_data_complete:
  assumes "get_listing_id data = Some lid" "get_check_in_date data = Some ci"
    "get_check_out_date data = Some co"
  shows "listing_id (apply_data b data) = lid \<and> check_in_date (apply_data b data) = ci
         \<and> check_out_date (apply_data b data) = co"
  using assms by (simp add: apply_data_def)

lemma no_conflict_disjoint:
  assumes "\<not> has_conflict db inst lid ci co" "e \<in> set (bookings db)"
    "listing_id e = lid" "active e" "case inst of None \<Rightarrow> True | Some i \<Rightarrow> pk e \<noteq> pk i"
    "listing_id n = lid" "check_in_date n = ci" "check_out_date n = co"
  shows "stay e \<inter> stay n = {}"
proof (rule ccontr)
  assume "stay e \<inter> stay n \<noteq> {}"
  then have "check_in_date e < co \<and> ci < check_out_date e"
    using stay_meet [of e n] assms by simp
  with assms show False
    by (auto simp: has_conflict_def)
qed

lemma set_save_row:
  assumes "i \<in> set bs" "pk n = pk i"
  shows "set (save_row bs n) = insert n {r \<in> set bs. pk r \<noteq> pk i}"
  using assms by (auto simp: save_row_def)

lemma map_pk_save_row:
  assumes "i \<in> set bs" "pk n = pk i"
  shows "map pk (save_row bs n) = map pk bs"
  using assms by (auto simp: save_row_def)

lemma created_keeps:
  assumes c: "complete data" and s: "save today dflt db None data = (Inr b, db')"
    and d: "distinct (map pk (bookings db))" and inv: "no_double_booking (bookings db)"
  shows "distinct (map pk (bookings db')) \<and> no_double_booking (bookings db')"
proof -
  from s obtain lid l ci co where
    v: "validate today db None data = Inr data"
    and g1: "get_listing_id data = Some lid" and l: "listings db lid = Some l"
    and g2: "get_check_in_date data = Some ci" and g3: "get_check_out_date data = Some co"
    and b: "b = (apply_data dflt data)\<lparr> pk := fresh_pk (bookings db),
                 total_price := price_per_night l * (co - ci) \<rparr>"
    and db': "db' = db\<lparr> bookings := bookings db @ [b] \<rparr>"
    by (rule save_created)
  note g = g1 g2 g3
  from complete_validated [OF c v] g have nc: "\<not> has_conflict db None lid ci co"
    by simp
  have pkb: "pk b = fresh_pk (bookings db)" using b by simp
  have fresh: "pk b \<notin> set (map pk (bookings db))"
    using fresh_pk_gt [of _ "bookings db"] pkb by fastforce
  have fb: "listing_id b = lid \<and> check_in_date b = ci \<and> check_out_date b = co"
    using b apply_data_complete [OF g, of dflt] by simp
  have dis: "stay e \<inter> stay b = {}"
    if "e \<in> set (bookings db)" "listing_id e = listing_id b" "active e" for e
    using no_conflict_disjoint [OF nc that(1), of b] that fb by simp
  have "distinct (map pk (bookings db'))"
    using d fresh db' by simp
  moreover have "no_double_booking (bookings db')"
    unfolding no_double_booking_def
  proof (intro ballI impI)
    fix x y assume x: "x \<in> set (bookings db')" and y: "y \<in> set (bookings db')"
      and h: "x \<noteq> y \<and> listing_id x = listing_id y \<and> active x \<and> active y"
    from x y db' have "x \<in> set (bookings db) \<or> x = b" "y \<in> set (bookings db) \<or> y = b"
      by auto
    then consider "x \<in> set (bookings db)" "y \<in> set (bookings db)"
      | "x \<in> set (bookings db)" "y = b" | "x = b" "y \<in> set (bookings db)" | "x = b" "y = b"
      by blast
    then show "stay x \<inter> stay y = {}"
    proof cases
      case 1 with inv h show ?thesis by (simp add: no_double_booking_def)
    next
      case 2 with dis [of x] h show ?thesis by simp
    next
      case 3 with dis [of y] h show ?thesis by (simp add: Int_commute)
    next
      case 4 with h show ?thesis by simp
    qed
  qed
  ultimately show ?thesis ..
qed

lemma updated_keeps:
  assumes c: "complete data" and i: "inst \<in> set (bookings db)"
    and s: "save today dflt db (Some inst) data = (Inr b, db')"
    and d: "distinct (map pk (bookings db))" and inv: "no_double_booking (bookings db)"
  shows "distinct (map pk (bookings db')) \<and> no_double_booking (bookings db')"
proof -
  from save_updated [OF s] have
    v: "validate today db (Some inst) data = Inr data"
    and b: "b = apply_data inst data"
    and db': "db' = db\<lparr> bookings := save_row (bookings db) b \<rparr>"
    by simp_all
  from complete_validated [OF c v] obtain lid ci co where
    g: "get_listing_id data = Some lid" "get_check_in_date data = Some ci"
       "get_check_out_date data = Some co"
    and nc: "\<not> has_conflict db (Some inst) lid ci co"
    by blast
  have pkb: "pk b = pk inst" using b by simp
  have fb: "listing_id b = lid \<and> check_in_date b = ci \<and> check_out_date b = co"
    using b apply_data_complete [OF g, of inst] by simp
  have dis: "stay e \<inter> stay b = {}"
    if "e \<in> set (bookings db)" "listing_id e = listing_id b" "active e" "pk e \<noteq> pk inst" for e
    using no_conflict_disjoint [OF nc that(1), of b] that fb by simp
  have rows: "set (bookings db') = insert b {r \<in> set (bookings db). pk r \<noteq> pk inst}"
    using db' set_save_row [OF i pkb] by simp
  have "distinct (map pk (bookings db'))"
    using d db' map_pk_save_row [OF i pkb] by simp
  moreover have "no_double_booking (bookings db')"
    unfolding no_double_booking_def
  proof (intro ballI impI)
    fix x y assume x: "x \<in> set (bookings db')" and y: "y \<in> set (bookings db')"
      and h: "x \<noteq> y \<and> listing_id x = listing_id y \<and> active x \<and> active y"
    from x y rows have
      "x = b \<or> x \<in> set (bookings db) \<and> pk x \<noteq> pk inst"
      "y = b \<or> y \<in> set (bookings db) \<and> pk y \<noteq> pk inst"
      by auto
    then consider "x \<in> set (bookings db)" "y \<in> set (bookings db)"
      | "x \<in> set (bookings db)" "pk x \<noteq> pk inst" "y = b"
      | "x = b" "y \<in> set (bookings db)" "pk y \<noteq> pk inst" | "x = b" "y = b"
      by blast
    then show "stay x \<inter> stay y = {}"
    proof cases
      case 1 with inv h show ?thesis by (simp add: no_double_booking_def)
    next
      case 2 with dis [of x] h show ?thesis by simp
    next
      case 3 with dis [of y] h show ?thesis by (simp add: Int_commute)
    next
      case 4 with h show ?thesis by simp
    qed
  qed
  ultimately show ?thesis ..
qed

lemma step_complete_keeps:
  assumes "step complete db db'" "distinct (map pk (bookings db))"
    "no_double_booking (bookings db)"
  shows "distinct (map pk (bookings db')) \<and> no_double_booking (bookings db')"
  using assms
proof (cases rule: step.cases)
  case (created data today dflt b)
  with assms show ?thesis using created_keeps by blast
next
  case (updated data inst today dflt b)
  with assms show ?thesis using updated_keeps by blast
qed

lemma validate_dates_range:
  "validate_dates today ci co = Some e \<Longrightarrow> e = CheckOutNotAfterCheckIn \<or> e = CheckInInPast"
  by (cases "(today, ci, co)" rule: validate_dates.cases) (auto split: if_splits)

lemma validate_guests_range:
  "validate_guests db lid g = Some e \<Longrightarrow>
     e = InvalidListingID \<or> (\<exists>x y. e = GuestsExceedCapacity x y)"
  by (cases "(db, lid, g)" rule: validate_guests.cases) (auto split: if_splits option.splits)

lemma validate_conflicts_range:
  "validate_conflicts db inst ci co lid = Some e \<Longrightarrow> e = ListingNotAvailable"
  by (cases "(db, inst, ci, co, lid)" rule: validate_conflicts.cases) (auto split: if_splits)

lemma validate_isl_iff:
  "isl (validate today db inst data) \<longleftrightarrow>
     validate_dates today (get_check_in_date data) (get_check_out_date data) \<noteq> None
     \<or> validate_guests db (get_listing_id data) (get_guests data) \<noteq> None
     \<or> validate_conflicts db inst (get_check_in_date data) (get_check_out_date data)
          (get_listing_id data) \<noteq> None"
  by (auto simp: validate_def Let_def split: option.splits)






section \<open>Rating validation\<close>

text \<open>
  C5. For every integer rating, \<open>validate_rating\<close> raises its validation error exactly
  when the rating is outside the range 1 to 5, and returns the rating unchanged
  otherwise; 1 and 5 are returned unchanged.
\<close>

theorem validate_rating_range:
  "validate_rating v = (if v < 1 \<or> 5 < v then Inl RatingOutOfRange else Inr v)
   \<and> isl (validate_rating v) = (v < 1 \<or> 5 < v)
   \<and> validate_rating 1 = Inr 1 \<and> validate_rating 5 = Inr 5"
  by (auto simp: validate_rating_def)

section \<open>Date rules\<close>

text \<open>
  C4. For a candidate with both dates present, \<open>validate\<close> raises the date-order error
  whenever the check-out date is not after the check-in date (so equal dates are always
  rejected); a check-out one day after the check-in is never rejected by that rule, and
  is accepted once the check-in is not in the past and the capacity and conflict blocks
  pass.
\<close>

theorem validate_date_order:
  assumes "get_check_in_date data = Some ci" and "get_check_out_date data = Some co"
  shows "(co \<le> ci \<longrightarrow> validate today db inst data = Inl CheckOutNotAfterCheckIn)
       \<and> (co = ci + 1 \<longrightarrow> validate today db inst data \<noteq> Inl CheckOutNotAfterCheckIn)
       \<and> (co = ci + 1 \<and> today \<le> ci
            \<and> validate_guests db (get_listing_id data) (get_guests data) = None
            \<and> validate_conflicts db inst (Some ci) (Some co) (get_listing_id data) = None
          \<longrightarrow> validate today db inst data = Inr data)"
  using assms
  by (auto simp: validate_Inl_iff validate_Inr_iff
           dest: validate_guests_range validate_conflicts_range)

theorem validate_date_order_witness:
  "validate (jan 1) (ex_db 1 []) None (ex_request 1 (jan 3) (jan 3) 2)
     = Inl CheckOutNotAfterCheckIn
   \<and> validate (jan 1) (ex_db 1 []) None (ex_request 1 (jan 3) (jan 4) 2)
     = Inr (ex_request 1 (jan 3) (jan 4) 2)"
proof -
  have a: "get_check_in_date (ex_request 1 (jan 3) (jan 3) 2) = Some (jan 3)"
    "get_check_out_date (ex_request 1 (jan 3) (jan 3) 2) = Some (jan 3)"
    by (simp_all add: ex_request_def)
  have b: "get_check_in_date (ex_request 1 (jan 3) (jan 4) 2) = Some (jan 3)"
    "get_check_out_date (ex_request 1 (jan 3) (jan 4) 2) = Some (jan 4)"
    by (simp_all add: ex_request_def)
  have c: "jan 4 = jan 3 + 1 \<and> jan 1 \<le> jan 3
     \<and> validate_guests (ex_db 1 []) (get_listing_id (ex_request 1 (jan 3) (jan 4) 2))
          (get_guests (ex_request 1 (jan 3) (jan 4) 2)) = None
     \<and> validate_conflicts (ex_db 1 []) None (Some (jan 3)) (Some (jan 4))
          (get_listing_id (ex_request 1 (jan 3) (jan 4) 2)) = None"
    by (simp add: ex_defs conflicting_bookings_def)
  have "validate (jan 1) (ex_db 1 []) None (ex_request 1 (jan 3) (jan 3) 2)
          = Inl CheckOutNotAfterCheckIn"
    using validate_date_order [OF a, of "jan 1" "ex_db 1 []" None] by simp
  moreover have "validate (jan 1) (ex_db 1 []) None (ex_request 1 (jan 3) (jan 4) 2)
          = Inr (ex_request 1 (jan 3) (jan 4) 2)"
    using validate_date_order [OF b, of "jan 1" "ex_db 1 []" None] c by blast
  ultimately show ?thesis ..
qed

text \<open>
  A partial request that carries a check-in date of yesterday and no check-out date is
  accepted: the clock is consulted only inside \<^verbatim>\<open>if check_in and check_out\<close>.
\<close>

theorem past_check_in_unchecked_counterexample:
  "get_check_in_date (ex_patch\<lparr> get_check_in_date := Some (jan 1) \<rparr>) = Some (jan 1)
   \<and> jan 1 < jan 2
   \<and> validate (jan 2) (ex_db 1 []) None (ex_patch\<lparr> get_check_in_date := Some (jan 1) \<rparr>)
       = Inr (ex_patch\<lparr> get_check_in_date := Some (jan 1) \<rparr>)"
  by (simp add: ex_defs validate_def)

text \<open>
  C7 (amended). For every candidate with both dates present, \<open>validate\<close> rejects it when
  its check-in date is earlier than the current date: with the date-order error when the
  check-out is not after the check-in, with the past-date error otherwise.
\<close>

theorem validate_past_check_in:
  assumes "get_check_in_date data = Some ci" and "get_check_out_date data = Some co"
    and "ci < today"
  shows "validate today db inst data
           = Inl (if co \<le> ci then CheckOutNotAfterCheckIn else CheckInInPast)"
  using assms by (simp add: validate_def)

theorem validate_past_check_in_witness:
  "jan 1 < jan 2
   \<and> validate (jan 2) (ex_db 1 []) None (ex_request 1 (jan 1) (jan 5) 2) = Inl CheckInInPast"
proof -
  have a: "get_check_in_date (ex_request 1 (jan 1) (jan 5) 2) = Some (jan 1)"
    and b: "get_check_out_date (ex_request 1 (jan 1) (jan 5) 2) = Some (jan 5)"
    by (simp_all add: ex_request_def)
  have c: "jan 1 < jan 2" by (simp add: jan_def)
  show ?thesis
    using validate_past_check_in [OF a b c, of "ex_db 1 []" None] c by (simp add: jan_def)
qed

section \<open>Capacity rule\<close>

text \<open>
  C10. When the guest count is 0 or absent, or the listing id is 0 or absent, the
  capacity block is skipped: it raises nothing, and \<open>validate\<close> returns neither the
  capacity error nor the invalid-listing error, whatever the tables hold.
\<close>

theorem validate_guests_skipped:
  assumes "get_guests data = Some 0 \<or> get_guests data = None
           \<or> get_listing_id data = Some 0 \<or> get_listing_id data = None"
  shows "validate_guests db (get_listing_id data) (get_guests data) = None
       \<and> validate today db inst data \<noteq> Inl (GuestsExceedCapacity g m)
       \<and> validate today db inst data \<noteq> Inl InvalidListingID"
proof -
  have skip: "validate_guests db (get_listing_id data) (get_guests data) = None"
    using assms
    by (cases "get_listing_id data"; cases "get_guests data") auto
  have "validate_dates today ci co \<noteq> Some (GuestsExceedCapacity g m)
      \<and> validate_dates today ci co \<noteq> Some InvalidListingID" for ci co
    by (cases "(today, ci, co)" rule: validate_dates.cases) auto
  moreover have "validate_conflicts db inst ci co lid \<noteq> Some (GuestsExceedCapacity g m)
      \<and> validate_conflicts db inst ci co lid \<noteq> Some InvalidListingID" for ci co lid
    by (cases "(db, inst, ci, co, lid)" rule: validate_conflicts.cases) auto
  ultimately show ?thesis
    using skip by (simp add: validate_Inl_iff)
qed

theorem validate_guests_skipped_witness:
  "listings (ex_db 1 []) 7 = None
   \<and> validate (jan 1) (ex_db 1 []) None (ex_request 7 (jan 1) (jan 5) 0) \<noteq> Inl InvalidListingID
   \<and> validate (jan 1) (ex_db 0 []) None (ex_request 0 (jan 1) (jan 5) 9)
       \<noteq> Inl (GuestsExceedCapacity 9 4)"
proof -
  have a: "get_guests (ex_request 7 (jan 1) (jan 5) 0) = Some 0
           \<or> get_guests (ex_request 7 (jan 1) (jan 5) 0) = None
           \<or> get_listing_id (ex_request 7 (jan 1) (jan 5) 0) = Some 0
           \<or> get_listing_id (ex_request 7 (jan 1) (jan 5) 0) = None"
    by (simp add: ex_request_def)
  have b: "get_guests (ex_request 0 (jan 1) (jan 5) 9) = Some 0
           \<or> get_guests (ex_request 0 (jan 1) (jan 5) 9) = None
           \<or> get_listing_id (ex_request 0 (jan 1) (jan 5) 9) = Some 0
           \<or> get_listing_id (ex_request 0 (jan 1) (jan 5) 9) = None"
    by (simp add: ex_request_def)
  show ?thesis
    using validate_guests_skipped [OF a, where today = "jan 1" and db = "ex_db 1 []"
        and inst = None]
      validate_guests_skipped [OF b, where today = "jan 1" and db = "ex_db 0 []"
        and inst = None and g = 9 and m = 4]
    by (simp add: ex_db_def)
qed

text \<open>
  Two requests the capacity block lets through. The first names listing 7, which does not
  exist, with a guest count of 0. The second names a listing stored under key 0, with nine
  guests where it holds four.
\<close>

theorem capacity_skipped_counterexample:
  "get_listing_id (ex_request 7 (jan 1) (jan 5) 0) = Some 7
   \<and> listings (ex_db 1 []) 7 = None
   \<and> validate (jan 1) (ex_db 1 []) None (ex_request 7 (jan 1) (jan 5) 0)
       = Inr (ex_request 7 (jan 1) (jan 5) 0)
   \<and> get_listing_id (ex_request 0 (jan 1) (jan 5) 9) = Some 0
   \<and> listings (ex_db 0 []) 0 = Some ex_listing
   \<and> get_guests (ex_request 0 (jan 1) (jan 5) 9) = Some 9
   \<and> 9 > max_guests ex_listing
   \<and> validate (jan 1) (ex_db 0 []) None (ex_request 0 (jan 1) (jan 5) 9)
       = Inr (ex_request 0 (jan 1) (jan 5) 9)"
  by (simp add: ex_defs run_defs)

text \<open>
  C6 (amended). For a candidate whose guest count and listing id are both present and
  not 0: when the listing exists and the guests exceed its \<open>max_guests\<close>, \<open>validate\<close>
  rejects the candidate (with the capacity error, unless a date rule rejected it first);
  when the listing does not exist, \<open>validate\<close> rejects it (with the invalid-listing
  error, unless a date rule rejected it first). Whatever the values, a guest count equal
  to \<open>max_guests\<close> of the listing found is never rejected by the capacity rule.
\<close>

theorem validate_capacity:
  assumes "get_guests data = Some g" and "get_listing_id data = Some lid"
  shows "(g \<noteq> 0 \<and> lid \<noteq> 0 \<and> listings db lid = Some l \<and> g > max_guests l
            \<longrightarrow> isl (validate today db inst data)
              \<and> (validate_dates today (get_check_in_date data) (get_check_out_date data) = None
                   \<longrightarrow> validate today db inst data
                         = Inl (GuestsExceedCapacity g (max_guests l))))
       \<and> (listings db lid = Some l \<and> g = max_guests l
            \<longrightarrow> validate_guests db (Some lid) (Some g) = None
              \<and> (\<forall>x y. validate today db inst data \<noteq> Inl (GuestsExceedCapacity x y)))
       \<and> (g \<noteq> 0 \<and> lid \<noteq> 0 \<and> listings db lid = None
            \<longrightarrow> isl (validate today db inst data)
              \<and> (validate_dates today (get_check_in_date data) (get_check_out_date data) = None
                   \<longrightarrow> validate today db inst data = Inl InvalidListingID))"
proof (intro conjI impI allI)
  assume h: "g \<noteq> 0 \<and> lid \<noteq> 0 \<and> listings db lid = Some l \<and> g > max_guests l"
  then have "validate_guests db (get_listing_id data) (get_guests data)
               = Some (GuestsExceedCapacity g (max_guests l))"
    using assms by simp
  then show "isl (validate today db inst data)"
    by (simp add: validate_isl_iff)
next
  assume h: "g \<noteq> 0 \<and> lid \<noteq> 0 \<and> listings db lid = Some l \<and> g > max_guests l"
    and d: "validate_dates today (get_check_in_date data) (get_check_out_date data) = None"
  then show "validate today db inst data = Inl (GuestsExceedCapacity g (max_guests l))"
    using assms by (simp add: validate_def)
next
  assume "listings db lid = Some l \<and> g = max_guests l"
  then show "validate_guests db (Some lid) (Some g) = None"
    by simp
next
  fix x y
  assume "listings db lid = Some l \<and> g = max_guests l"
  then have "validate_guests db (get_listing_id data) (get_guests data) = None"
    using assms by simp
  then show "validate today db inst data \<noteq> Inl (GuestsExceedCapacity x y)"
    by (auto simp: validate_Inl_iff dest: validate_dates_range validate_conflicts_range)
next
  assume h: "g \<noteq> 0 \<and> lid \<noteq> 0 \<and> listings db lid = None"
  then have "validate_guests db (get_listing_id data) (get_guests data) = Some InvalidListingID"
    using assms by simp
  then show "isl (validate today db inst data)"
    by (simp add: validate_isl_iff)
next
  assume h: "g \<noteq> 0 \<and> lid \<noteq> 0 \<and> listings db lid = None"
    and d: "validate_dates today (get_check_in_date data) (get_check_out_date data) = None"
  then show "validate today db inst data = Inl InvalidListingID"
    using assms by (simp add: validate_def)
qed

theorem validate_capacity_witness:
  "validate (jan 1) (ex_db 1 []) None (ex_request 1 (jan 1) (jan 5) 5)
     = Inl (GuestsExceedCapacity 5 4)
   \<and> validate (jan 1) (ex_db 1 []) None (ex_request 1 (jan 1) (jan 5) 4)
     \<noteq> Inl (GuestsExceedCapacity 4 4)
   \<and> validate (jan 1) (ex_db 1 []) None (ex_request 7 (jan 1) (jan 5) 2)
     = Inl InvalidListingID"
proof -
  let ?db = "ex_db 1 []"
  have d: "validate_dates (jan 1) (get_check_in_date (ex_request lid (jan 1) (jan 5) g))
             (get_check_out_date (ex_request lid (jan 1) (jan 5) g)) = None" for lid g
    by (simp add: ex_defs)
  have a: "get_guests (ex_request 1 (jan 1) (jan 5) 5) = Some 5"
    "get_listing_id (ex_request 1 (jan 1) (jan 5) 5) = Some 1"
    by (simp_all add: ex_request_def)
  have a': "(5::int) \<noteq> 0 \<and> (1::int) \<noteq> 0 \<and> listings ?db 1 = Some ex_listing
            \<and> 5 > max_guests ex_listing"
    by (simp add: ex_defs)
  have b: "get_guests (ex_request 1 (jan 1) (jan 5) 4) = Some 4"
    "get_listing_id (ex_request 1 (jan 1) (jan 5) 4) = Some 1"
    by (simp_all add: ex_request_def)
  have b': "listings ?db 1 = Some ex_listing \<and> 4 = max_guests ex_listing"
    by (simp add: ex_defs)
  have c: "get_guests (ex_request 7 (jan 1) (jan 5) 2) = Some 2"
    "get_listing_id (ex_request 7 (jan 1) (jan 5) 2) = Some 7"
    by (simp_all add: ex_request_def)
  have c': "(2::int) \<noteq> 0 \<and> (7::int) \<noteq> 0 \<and> listings ?db 7 = None"
    by (simp add: ex_defs)
  have m: "max_guests ex_listing = 4" by (simp add: ex_listing_def)
  have "validate (jan 1) ?db None (ex_request 1 (jan 1) (jan 5) 5)
          = Inl (GuestsExceedCapacity 5 4)"
    using validate_capacity [OF a, where db = ?db and l = ex_listing and today = "jan 1"
        and inst = None] a' d [of 1 5] m
    by simp
  moreover have "validate (jan 1) ?db None (ex_request 1 (jan 1) (jan 5) 4)
          \<noteq> Inl (GuestsExceedCapacity 4 4)"
    using validate_capacity [OF b, where db = ?db and l = ex_listing and today = "jan 1"
        and inst = None] b'
    by blast
  moreover have "validate (jan 1) ?db None (ex_request 7 (jan 1) (jan 5) 2)
          = Inl InvalidListingID"
    using validate_capacity [OF c, where db = ?db and l = ex_listing and today = "jan 1"
        and inst = None] c' d [of 7 2]
    by simp
  ultimately show ?thesis by simp
qed

section \<open>Conflict rule\<close>

text \<open>
  The validator and the conflict of the specification part ways twice. A request with
  equal dates is rejected although the table is empty; and a request that names listing
  0 is accepted although a pending booking of listing 0 overlaps it, since the query runs
  only under \<^verbatim>\<open>if check_in and check_out and listing_id\<close>.
\<close>

theorem validate_conflict_counterexample:
  "get_listing_id (ex_request 1 (jan 3) (jan 3) 2) = Some 1
   \<and> isl (validate (jan 1) (ex_db 1 []) None (ex_request 1 (jan 3) (jan 3) 2))
   \<and> \<not> has_conflict (ex_db 1 []) None 1 (jan 3) (jan 3)
   \<and> get_listing_id (ex_request 0 (jan 4) (jan 8) 2) = Some 0
   \<and> \<not> isl (validate (jan 1) (ex_db 0 [ex_booking 1 0 (jan 1) (jan 5) 400]) None
               (ex_request 0 (jan 4) (jan 8) 2))
   \<and> has_conflict (ex_db 0 [ex_booking 1 0 (jan 1) (jan 5) 400]) None 0 (jan 4) (jan 8)"
  by (simp add: ex_defs run_defs has_conflict_def active_def)

text \<open>
  C1 (amended). For every candidate with check-in, check-out and a listing id other than
  0 that passes the date-order, past-date and capacity rules, \<open>validate\<close> rejects it
  exactly when some existing booking of that listing with status pending or confirmed,
  other than the booking being updated, has existing.check_in < candidate.check_out and
  existing.check_out > candidate.check_in; the error is then the unavailability error. In
  particular a booking from January 1 to January 5 conflicts with a request for January 4
  to 8 and not with one for January 5 to 8.
\<close>

theorem validate_conflict_iff:
  assumes "get_check_in_date data = Some ci" and "get_check_out_date data = Some co"
    and "get_listing_id data = Some lid" and "lid \<noteq> 0"
    and "ci < co" and "today \<le> ci"
    and "validate_guests db (Some lid) (get_guests data) = None"
  shows "isl (validate today db inst data) = has_conflict db inst lid ci co
       \<and> validate today db inst data
           = (if has_conflict db inst lid ci co then Inl ListingNotAvailable else Inr data)"
  using assms by (simp add: validate_def conflicting_bookings_empty_iff)

theorem validate_conflict_iff_witness:
  "isl (validate (jan 1) (ex_db 1 [ex_booking 1 1 (jan 1) (jan 5) 400]) None
          (ex_request 1 (jan 4) (jan 8) 2))
   \<and> has_conflict (ex_db 1 [ex_booking 1 1 (jan 1) (jan 5) 400]) None 1 (jan 4) (jan 8)
   \<and> \<not> isl (validate (jan 1) (ex_db 1 [ex_booking 1 1 (jan 1) (jan 5) 400]) None
          (ex_request 1 (jan 5) (jan 8) 2))
   \<and> \<not> has_conflict (ex_db 1 [ex_booking 1 1 (jan 1) (jan 5) 400]) None 1 (jan 5) (jan 8)"
proof -
  let ?db = "ex_db 1 [ex_booking 1 1 (jan 1) (jan 5) 400]"
  have g: "validate_guests ?db (Some 1) (get_guests (ex_request 1 ci co 2)) = None" for ci co
    by (simp add: ex_defs)
  have one: "(1::int) \<noteq> 0" by simp
  have a: "get_check_in_date (ex_request 1 (jan 4) (jan 8) 2) = Some (jan 4)"
    "get_check_out_date (ex_request 1 (jan 4) (jan 8) 2) = Some (jan 8)"
    "get_listing_id (ex_request 1 (jan 4) (jan 8) 2) = Some 1"
    by (simp_all add: ex_request_def)
  have a': "jan 4 < jan 8" "jan 1 \<le> jan 4" by (simp_all add: jan_def)
  have b: "get_check_in_date (ex_request 1 (jan 5) (jan 8) 2) = Some (jan 5)"
    "get_check_out_date (ex_request 1 (jan 5) (jan 8) 2) = Some (jan 8)"
    "get_listing_id (ex_request 1 (jan 5) (jan 8) 2) = Some 1"
    by (simp_all add: ex_request_def)
  have b': "jan 5 < jan 8" "jan 1 \<le> jan 5" by (simp_all add: jan_def)
  have yes: "has_conflict ?db None 1 (jan 4) (jan 8)"
    and no: "\<not> has_conflict ?db None 1 (jan 5) (jan 8)"
    by (simp_all add: ex_defs has_conflict_def active_def)
  show ?thesis
    using validate_conflict_iff [OF a one a' g, of None]
      validate_conflict_iff [OF b one b' g, of None] yes no
    by simp
qed

section \<open>Price\<close>

text \<open>
  C3. When the data carries check-in \<open>a\<close>, check-out \<open>b\<close> and the id of an existing
  listing \<open>l\<close>, \<open>create\<close> succeeds and stores a booking whose \<open>total_price\<close> is
  \<open>b - a\<close> days times the price per night of \<open>l\<close>; a booking created through
  validation has \<open>a < b\<close> as well. At 100 a night, January 1 to January 4 gives 300.
\<close>

theorem create_total_price:
  assumes "get_check_in_date data = Some a" and "get_check_out_date data = Some b"
    and "get_listing_id data = Some lid" and "listings db lid = Some l"
  shows "(\<exists>r. create dflt db data = (Inr r, db\<lparr> bookings := bookings db @ [r] \<rparr>)
              \<and> total_price r = (b - a) * price_per_night l)
       \<and> (\<forall>r db'. save today dflt db None data = (Inr r, db')
              \<longrightarrow> a < b \<and> total_price r = (b - a) * price_per_night l
                  \<and> r \<in> set (bookings db'))"
proof
  show "\<exists>r. create dflt db data = (Inr r, db\<lparr> bookings := bookings db @ [r] \<rparr>)
              \<and> total_price r = (b - a) * price_per_night l"
    using assms by (simp add: create_def Booking_objects_create_def Let_def mult.commute)
next
  show "\<forall>r db'. save today dflt db None data = (Inr r, db')
              \<longrightarrow> a < b \<and> total_price r = (b - a) * price_per_night l
                  \<and> r \<in> set (bookings db')"
  proof (intro allI impI)
    fix r db' assume s: "save today dflt db None data = (Inr r, db')"
    then obtain lid' l' ci co where
      v: "validate today db None data = Inr data"
      and g: "get_listing_id data = Some lid'" "listings db lid' = Some l'"
        "get_check_in_date data = Some ci" "get_check_out_date data = Some co"
      and r: "r = (apply_data dflt data)
           \<lparr> pk := fresh_pk (bookings db), total_price := price_per_night l' * (co - ci) \<rparr>"
      and db': "db' = db\<lparr> bookings := bookings db @ [r] \<rparr>"
      by (rule save_created)
    from v assms have "a < b"
      by (auto simp: validate_Inr_iff split: if_splits)
    with g r db' assms show "a < b \<and> total_price r = (b - a) * price_per_night l
                  \<and> r \<in> set (bookings db')"
      by (simp add: mult.commute)
  qed
qed

theorem create_total_price_witness:
  "create ex_defaults (ex_db 1 []) (ex_request 1 (jan 1) (jan 4) 2)
     = (Inr (ex_booking 1 1 (jan 1) (jan 4) 300), ex_db 1 [ex_booking 1 1 (jan 1) (jan 4) 300])
   \<and> save (jan 1) ex_defaults (ex_db 1 []) None (ex_request 1 (jan 1) (jan 4) 2)
     = (Inr (ex_booking 1 1 (jan 1) (jan 4) 300), ex_db 1 [ex_booking 1 1 (jan 1) (jan 4) 300])
   \<and> price_per_night ex_listing = 100
   \<and> total_price (ex_booking 1 1 (jan 1) (jan 4) 300) = (jan 4 - jan 1) * 100"
proof -
  let ?d = "ex_request 1 (jan 1) (jan 4) 2" and ?r = "ex_booking 1 1 (jan 1) (jan 4) 300"
  have a: "get_check_in_date ?d = Some (jan 1)" "get_check_out_date ?d = Some (jan 4)"
    "get_listing_id ?d = Some 1" "listings (ex_db 1 []) 1 = Some ex_listing"
    by (simp_all add: ex_request_def ex_db_def)
  have c: "create ex_defaults (ex_db 1 []) ?d = (Inr ?r, ex_db 1 [?r])"
    by (simp add: ex_defs run_defs)
  have s: "save (jan 1) ex_defaults (ex_db 1 []) None ?d = (Inr ?r, ex_db 1 [?r])"
    by (simp add: ex_defs run_defs)
  have p: "price_per_night ex_listing = 100" by (simp add: ex_listing_def)
  from create_total_price [OF a, of ex_defaults "jan 1"] s p
  have "total_price ?r = (jan 4 - jan 1) * 100"
    by simp
  with c s p show ?thesis by simp
qed

section \<open>Writes\<close>

text \<open>
  C8. When \<open>validate\<close> rejects the candidate, the write returns that error and the
  stored state is the one before; more generally every failed write, also one that
  fails inside \<open>create\<close>, leaves the stored state as it was.
\<close>

theorem rejected_write_changes_nothing:
  "(validate today db inst data = Inl e \<longrightarrow> save today dflt db inst data = (Inl e, db))
   \<and> (isl (fst (save today dflt db inst data)) \<longrightarrow> snd (save today dflt db inst data) = db)"
  by (auto simp: save_def create_def update_def Booking_objects_create_def Let_def
           split: sum.splits option.splits)

theorem rejected_write_changes_nothing_witness:
  "validate (jan 1) (ex_db 1 [ex_booking 1 1 (jan 1) (jan 5) 400]) None
       (ex_request 1 (jan 4) (jan 8) 2) = Inl ListingNotAvailable
   \<and> save (jan 1) ex_defaults (ex_db 1 [ex_booking 1 1 (jan 1) (jan 5) 400]) None
       (ex_request 1 (jan 4) (jan 8) 2)
     = (Inl ListingNotAvailable, ex_db 1 [ex_booking 1 1 (jan 1) (jan 5) 400])"
proof -
  have v: "validate (jan 1) (ex_db 1 [ex_booking 1 1 (jan 1) (jan 5) 400]) None
       (ex_request 1 (jan 4) (jan 8) 2) = Inl ListingNotAvailable"
    by (simp add: ex_defs run_defs)
  show ?thesis
    using v rejected_write_changes_nothing [where today = "jan 1"
        and db = "ex_db 1 [ex_booking 1 1 (jan 1) (jan 5) 400]" and inst = None
        and data = "ex_request 1 (jan 4) (jan 8) 2" and e = ListingNotAvailable
        and dflt = ex_defaults]
    by blast
qed




text \<open>
  Three successful writes from an empty table: a booking from January 1 to 5, one from
  January 5 to 8, and a partial update of the second that carries only a new check-in
  date, January 3. With no check-out date in the data the conflict query does not run,
  and the two pending bookings of listing 1 now share January 3 and 4. Then two
  creations with every field, from an empty table whose listing is stored under key 0:
  January 1 to 5 and January 4 to 8. The listing id 0 is falsy, the conflict query does
  not run, and the two pending bookings share January 4.
\<close>

theorem partial_update_double_booking_counterexample:
  "save (jan 1) ex_defaults (ex_db 1 []) None (ex_request 1 (jan 1) (jan 5) 2)
     = (Inr (ex_booking 1 1 (jan 1) (jan 5) 400), ex_db 1 [ex_booking 1 1 (jan 1) (jan 5) 400])
   \<and> save (jan 1) ex_defaults (ex_db 1 [ex_booking 1 1 (jan 1) (jan 5) 400]) None
         (ex_request 1 (jan 5) (jan 8) 2)
     = (Inr (ex_booking 2 1 (jan 5) (jan 8) 300),
        ex_db 1 [ex_booking 1 1 (jan 1) (jan 5) 400, ex_booking 2 1 (jan 5) (jan 8) 300])
   \<and> no_double_booking [ex_booking 1 1 (jan 1) (jan 5) 400, ex_booking 2 1 (jan 5) (jan 8) 300]
   \<and> save (jan 1) ex_defaults
         (ex_db 1 [ex_booking 1 1 (jan 1) (jan 5) 400, ex_booking 2 1 (jan 5) (jan 8) 300])
         (Some (ex_booking 2 1 (jan 5) (jan 8) 300))
         (ex_patch\<lparr> get_check_in_date := Some (jan 3) \<rparr>)
     = (Inr (ex_booking 2 1 (jan 3) (jan 8) 300),
        ex_db 1 [ex_booking 1 1 (jan 1) (jan 5) 400, ex_booking 2 1 (jan 3) (jan 8) 300])
   \<and> \<not> no_double_booking
         [ex_booking 1 1 (jan 1) (jan 5) 400, ex_booking 2 1 (jan 3) (jan 8) 300]
   \<and> save (jan 1) ex_defaults (ex_db 0 []) None (ex_request 0 (jan 1) (jan 5) 2)
     = (Inr (ex_booking 1 0 (jan 1) (jan 5) 400), ex_db 0 [ex_booking 1 0 (jan 1) (jan 5) 400])
   \<and> save (jan 1) ex_defaults (ex_db 0 [ex_booking 1 0 (jan 1) (jan 5) 400]) None
         (ex_request 0 (jan 4) (jan 8) 2)
     = (Inr (ex_booking 2 0 (jan 4) (jan 8) 400),
        ex_db 0 [ex_booking 1 0 (jan 1) (jan 5) 400, ex_booking 2 0 (jan 4) (jan 8) 400])
   \<and> \<not> no_double_booking
         [ex_booking 1 0 (jan 1) (jan 5) 400, ex_booking 2 0 (jan 4) (jan 8) 400]"
  by (simp add: ex_defs run_defs no_double_booking_def stay_def active_def)

text \<open>
  C2 (amended). For every sequence of successful creations and updates whose data
  carries both dates and a listing id other than 0, starting from a table with unique
  keys in which no two distinct active bookings of one listing share a night, the
  resulting table has unique keys and no two distinct bookings of it on the same
  listing, both with status pending or confirmed, have intersecting half-open ranges
  from check-in to check-out.
\<close>

theorem complete_writes_keep_no_double_booking:
  assumes "rtranclp (step complete) db db'"
    and "distinct (map pk (bookings db))" and "no_double_booking (bookings db)"
  shows "distinct (map pk (bookings db')) \<and> no_double_booking (bookings db')"
  using assms
proof (induction rule: rtranclp_induct)
  case base
  then show ?case by simp
next
  case (step y z)
  then show ?case using step_complete_keeps by blast
qed

theorem complete_writes_keep_no_double_booking_witness:
  "rtranclp (step complete) (ex_db 1 [])
     (ex_db 1 [ex_booking 1 1 (jan 1) (jan 5) 400, ex_booking 2 1 (jan 5) (jan 8) 300])
   \<and> distinct (map pk (bookings (ex_db 1 [])))
   \<and> no_double_booking (bookings (ex_db 1 []))
   \<and> distinct (map pk (bookings
         (ex_db 1 [ex_booking 1 1 (jan 1) (jan 5) 400, ex_booking 2 1 (jan 5) (jan 8) 300])))
   \<and> no_double_booking (bookings
         (ex_db 1 [ex_booking 1 1 (jan 1) (jan 5) 400, ex_booking 2 1 (jan 5) (jan 8) 300]))"
proof -
  let ?a = "ex_booking 1 1 (jan 1) (jan 5) 400" and ?b = "ex_booking 2 1 (jan 5) (jan 8) 300"
  have c: "complete (ex_request 1 ci co 2)" for ci co
    by (simp add: complete_def ex_request_def)
  have "save (jan 1) ex_defaults (ex_db 1 []) None (ex_request 1 (jan 1) (jan 5) 2)
          = (Inr ?a, ex_db 1 [?a])"
    by (simp add: ex_defs run_defs)
  then have s1: "step complete (ex_db 1 []) (ex_db 1 [?a])"
    using c by (rule step.created [rotated])
  have "save (jan 1) ex_defaults (ex_db 1 [?a]) None (ex_request 1 (jan 5) (jan 8) 2)
          = (Inr ?b, ex_db 1 [?a, ?b])"
    by (simp add: ex_defs run_defs)
  then have s2: "step complete (ex_db 1 [?a]) (ex_db 1 [?a, ?b])"
    using c by (rule step.created [rotated])
  from s1 s2 have r: "rtranclp (step complete) (ex_db 1 []) (ex_db 1 [?a, ?b])"
    by simp
  have d: "distinct (map pk (bookings (ex_db 1 [])))"
    and n: "no_double_booking (bookings (ex_db 1 []))"
    by (simp_all add: ex_db_def no_double_booking_def)
  show ?thesis
    using r d n complete_writes_keep_no_double_booking [OF r d n] by simp
qed

end
